theory Spec2Isabelle
  imports Complex_Main "HOL-Library.Char_ord" "HOL-Library.List_Lexorder" "HOL-Library.Multiset"
begin

section \<open>Data model\<close>

text \<open>
  The objects of \<^verbatim>\<open>pkg/cloudprovider/onmetal/load_balancer.go\<close>, restricted to the
  fields that the code reads or writes. Go strings are byte strings (\<open>string\<close>), Go maps
  are partial functions, Go slices are lists (a nil slice and an empty slice are both
  \<open>[]\<close>), a nil pointer is \<open>None\<close>.
\<close>

record ObjectKey =
  key_Namespace :: string
  key_Name :: string

definition ObjectKey_String :: "ObjectKey \<Rightarrow> string" where
  "ObjectKey_String k = key_Namespace k @ ''/'' @ key_Name k"

record LoadBalancerIngress =
  ing_IP :: string
  ing_Hostname :: string

record ServicePort =
  sp_Protocol :: string
  sp_Port :: int

record Service =
  svc_Name :: string
  svc_Namespace :: string
  svc_UID :: string
  svc_Annotations :: "string \<rightharpoonup> string"
  svc_Ports :: "ServicePort list"
  svc_IPFamilies :: "string list"
  svc_StatusLoadBalancer :: "LoadBalancerIngress list"

record Node =
  node_Name :: string
  node_ProviderID :: string

record LoadBalancerPort =
  lbp_Protocol :: "string option"
  lbp_Port :: int

text \<open>An \<open>IPSource\<close> with an ephemeral prefix template: its IP family and the name of
  its parent prefix.\<close>

datatype IPSource = Ephemeral string string

record LoadBalancer =
  lb_Name :: string
  lb_Namespace :: string
  lb_UID :: string
  lb_Annotations :: "string \<rightharpoonup> string"
  lb_Type :: string
  lb_IPFamilies :: "string list"
  lb_NetworkRef :: string
  lb_Ports :: "LoadBalancerPort list"
  lb_IPs :: "IPSource list"
  lb_StatusIPs :: "string list"

record LocalUIDReference =
  ref_Name :: string
  ref_UID :: string

record OwnerReference =
  own_Kind :: string
  own_Name :: string
  own_UID :: string

record LoadBalancerRouting =
  lbr_Name :: string
  lbr_Namespace :: string
  lbr_NetworkRef :: LocalUIDReference
  lbr_Destinations :: "LocalUIDReference list"
  lbr_OwnerReferences :: "OwnerReference list"
  lbr_Labels :: "string \<rightharpoonup> string"

record MachineNIC =
  mn_Name :: string
  mn_NetworkInterfaceRef :: "string option"

record Machine =
  m_Name :: string
  m_Namespace :: string
  m_NetworkInterfaces :: "MachineNIC list"

record NetworkInterface =
  ni_Name :: string
  ni_Namespace :: string
  ni_UID :: string
  ni_NetworkRef :: string

record Network =
  nw_Name :: string
  nw_UID :: string

record CloudConfig =
  cfg_NetworkName :: string
  cfg_PrefixName :: string

definition LoadBalancerTypePublic :: string where
  "LoadBalancerTypePublic = ''Public''"

definition LoadBalancerTypeInternal :: string where
  "LoadBalancerTypeInternal = ''Internal''"

definition InternalLoadBalancerAnnotation :: string where
  "InternalLoadBalancerAnnotation = ''service.beta.kubernetes.io/onmetal-load-balancer-internal''"

definition AnnotationKeyClusterName :: string where
  "AnnotationKeyClusterName = ''cluster-name''"

definition AnnotationKeyServiceName :: string where
  "AnnotationKeyServiceName = ''service-name''"

definition AnnotationKeyServiceNamespace :: string where
  "AnnotationKeyServiceNamespace = ''service-namespace''"

definition AnnotationKeyServiceUID :: string where
  "AnnotationKeyServiceUID = ''service-uid''"

definition IPv4Protocol :: string where
  "IPv4Protocol = ''IPv4''"

subsection \<open>Errors\<close>

text \<open>
  \<open>NotFound\<close> is the store's not-found status error, \<open>StoreFailure\<close> any other error
  of the store. \<open>ErrWaitTimeout\<close>, \<open>ContextCanceled\<close> and \<open>ContextDeadlineExceeded\<close>
  are the errors of the wait package and of the context. \<open>Errorf msg w\<close> is
  \<^verbatim>\<open>fmt.Errorf\<close>: the text before the wrapped error, and the error wrapped by
  \<^verbatim>\<open>%w\<close> when there is one.
\<close>

datatype error =
    NotFound
  | StoreFailure
  | ErrWaitTimeout
  | ContextCanceled
  | ContextDeadlineExceeded
  | Errorf string "error option"

text \<open>\<^verbatim>\<open>apierrors.IsNotFound\<close> looks through wrapped errors.\<close>

fun IsNotFound :: "error \<Rightarrow> bool" where
  "IsNotFound NotFound = True"
| "IsNotFound (Errorf msg (Some e)) = IsNotFound e"
| "IsNotFound _ = False"

text \<open>\<^verbatim>\<open>wait.Interrupted\<close>: the wait timed out or its context ended.\<close>

fun Interrupted :: "error \<Rightarrow> bool" where
  "Interrupted ErrWaitTimeout = True"
| "Interrupted ContextCanceled = True"
| "Interrupted ContextDeadlineExceeded = True"
| "Interrupted (Errorf msg (Some e)) = Interrupted e"
| "Interrupted _ = False"

section \<open>IdentityNamer\<close>

text \<open>\<^verbatim>\<open>strings.Split(s, sep)\<close> for a separator of one byte: the pieces between the
  occurrences of the separator, one more than there are occurrences.\<close>

fun strings_Split :: "string \<Rightarrow> char \<Rightarrow> string list" where
  "strings_Split [] c = [[]]"
| "strings_Split (x # xs) c =
     (if x = c then [] # strings_Split xs c
      else (case strings_Split xs c of
              [] \<Rightarrow> [[x]]
            | y # ys \<Rightarrow> (x # y) # ys))"

text \<open>
  \<^verbatim>\<open>nameSuffix := strings.Split(string(service.UID), "-")[0]\<close>. The index 0 is always
  in range (\<open>strings_Split_not_Nil\<close> below), so the branch for the empty list is never
  taken.
\<close>

definition getLoadBalancerNameForService :: "string \<Rightarrow> Service \<Rightarrow> string" where
  "getLoadBalancerNameForService clusterName service =
     (let nameSuffix = (case strings_Split (svc_UID service) (CHR ''-'') of
                          [] \<Rightarrow> []
                        | seg # _ \<Rightarrow> seg)
      in clusterName @ ''-'' @ svc_Name service @ ''-'' @ nameSuffix)"

section \<open>The store, the context and the clock\<close>

text \<open>
  The code reaches the outside world through \<^verbatim>\<open>o.onmetalClient\<close> (an interface), its
  context and the clock. Every such step is a \<open>call\<close>; what comes back is a
  \<open>response\<close>. The world is any function that answers a call given everything that
  happened before it, so other actors of the store (controllers filling in a status,
  finalizers, failures of the server) are all covered. The \<open>trace\<close> records every call
  with its response, in order.
\<close>

datatype call =
    Get_LoadBalancer ObjectKey
  | Get_LoadBalancerRouting ObjectKey
  | Get_Machine ObjectKey
  | Get_NetworkInterface ObjectKey
  | Get_Network ObjectKey
  | Apply_LoadBalancer LoadBalancer
  | Apply_LoadBalancerRouting LoadBalancerRouting
  | MergePatch_LoadBalancerRouting LoadBalancerRouting LoadBalancerRouting
  | Update_LoadBalancerRouting LoadBalancerRouting
  | Delete_LoadBalancer ObjectKey
  | Ctx_Done
  | Sleep int
  | Time_Now

datatype response =
    R_Err error
  | R_OK
  | R_LoadBalancer LoadBalancer
  | R_LoadBalancerRouting LoadBalancerRouting
  | R_Machine Machine
  | R_NetworkInterface NetworkInterface
  | R_Network Network
  | R_Time string

type_synonym trace = "(call \<times> response) list"

type_synonym world = "trace \<Rightarrow> call \<Rightarrow> response"

definition perform :: "world \<Rightarrow> call \<Rightarrow> trace \<Rightarrow> response \<times> trace" where
  "perform env c t = (let r = env t c in (r, t @ [(c, r)]))"

text \<open>The typed operations of the client. A response of the wrong kind is a failure
  of the store.\<close>

definition client_Get_LoadBalancer ::
  "world \<Rightarrow> ObjectKey \<Rightarrow> trace \<Rightarrow> (error + LoadBalancer) \<times> trace" where
  "client_Get_LoadBalancer env k t =
     (case perform env (Get_LoadBalancer k) t of
        (R_LoadBalancer x, t') \<Rightarrow> (Inr x, t')
      | (R_Err e, t') \<Rightarrow> (Inl e, t')
      | (_, t') \<Rightarrow> (Inl StoreFailure, t'))"

definition client_Get_LoadBalancerRouting ::
  "world \<Rightarrow> ObjectKey \<Rightarrow> trace \<Rightarrow> (error + LoadBalancerRouting) \<times> trace" where
  "client_Get_LoadBalancerRouting env k t =
     (case perform env (Get_LoadBalancerRouting k) t of
        (R_LoadBalancerRouting x, t') \<Rightarrow> (Inr x, t')
      | (R_Err e, t') \<Rightarrow> (Inl e, t')
      | (_, t') \<Rightarrow> (Inl StoreFailure, t'))"

definition client_Get_Machine ::
  "world \<Rightarrow> ObjectKey \<Rightarrow> trace \<Rightarrow> (error + Machine) \<times> trace" where
  "client_Get_Machine env k t =
     (case perform env (Get_Machine k) t of
        (R_Machine x, t') \<Rightarrow> (Inr x, t')
      | (R_Err e, t') \<Rightarrow> (Inl e, t')
      | (_, t') \<Rightarrow> (Inl StoreFailure, t'))"

definition client_Get_NetworkInterface ::
  "world \<Rightarrow> ObjectKey \<Rightarrow> trace \<Rightarrow> (error + NetworkInterface) \<times> trace" where
  "client_Get_NetworkInterface env k t =
     (case perform env (Get_NetworkInterface k) t of
        (R_NetworkInterface x, t') \<Rightarrow> (Inr x, t')
      | (R_Err e, t') \<Rightarrow> (Inl e, t')
      | (_, t') \<Rightarrow> (Inl StoreFailure, t'))"

definition client_Get_Network ::
  "world \<Rightarrow> ObjectKey \<Rightarrow> trace \<Rightarrow> (error + Network) \<times> trace" where
  "client_Get_Network env k t =
     (case perform env (Get_Network k) t of
        (R_Network x, t') \<Rightarrow> (Inr x, t')
      | (R_Err e, t') \<Rightarrow> (Inl e, t')
      | (_, t') \<Rightarrow> (Inl StoreFailure, t'))"

text \<open>\<^verbatim>\<open>Patch(ctx, obj, client.Apply, fieldOwner, client.ForceOwnership)\<close>: on success
  the object is overwritten with the server's answer.\<close>

definition client_Apply_LoadBalancer ::
  "world \<Rightarrow> LoadBalancer \<Rightarrow> trace \<Rightarrow> (error + LoadBalancer) \<times> trace" where
  "client_Apply_LoadBalancer env x t =
     (case perform env (Apply_LoadBalancer x) t of
        (R_LoadBalancer x', t') \<Rightarrow> (Inr x', t')
      | (R_Err e, t') \<Rightarrow> (Inl e, t')
      | (_, t') \<Rightarrow> (Inl StoreFailure, t'))"

definition client_Apply_LoadBalancerRouting ::
  "world \<Rightarrow> LoadBalancerRouting \<Rightarrow> trace \<Rightarrow> (error + LoadBalancerRouting) \<times> trace" where
  "client_Apply_LoadBalancerRouting env x t =
     (case perform env (Apply_LoadBalancerRouting x) t of
        (R_LoadBalancerRouting x', t') \<Rightarrow> (Inr x', t')
      | (R_Err e, t') \<Rightarrow> (Inl e, t')
      | (_, t') \<Rightarrow> (Inl StoreFailure, t'))"

text \<open>\<^verbatim>\<open>Patch(ctx, obj, client.MergeFrom(base))\<close>.\<close>

definition client_MergePatch_LoadBalancerRouting ::
  "world \<Rightarrow> LoadBalancerRouting \<Rightarrow> LoadBalancerRouting \<Rightarrow> trace
    \<Rightarrow> (error + LoadBalancerRouting) \<times> trace" where
  "client_MergePatch_LoadBalancerRouting env base x t =
     (case perform env (MergePatch_LoadBalancerRouting base x) t of
        (R_LoadBalancerRouting x', t') \<Rightarrow> (Inr x', t')
      | (R_Err e, t') \<Rightarrow> (Inl e, t')
      | (_, t') \<Rightarrow> (Inl StoreFailure, t'))"

definition client_Update_LoadBalancerRouting ::
  "world \<Rightarrow> LoadBalancerRouting \<Rightarrow> trace \<Rightarrow> (error + LoadBalancerRouting) \<times> trace" where
  "client_Update_LoadBalancerRouting env x t =
     (case perform env (Update_LoadBalancerRouting x) t of
        (R_LoadBalancerRouting x', t') \<Rightarrow> (Inr x', t')
      | (R_Err e, t') \<Rightarrow> (Inl e, t')
      | (_, t') \<Rightarrow> (Inl StoreFailure, t'))"

definition client_Delete_LoadBalancer ::
  "world \<Rightarrow> ObjectKey \<Rightarrow> trace \<Rightarrow> error option \<times> trace" where
  "client_Delete_LoadBalancer env k t =
     (case perform env (Delete_LoadBalancer k) t of
        (R_OK, t') \<Rightarrow> (None, t')
      | (R_Err e, t') \<Rightarrow> (Some e, t')
      | (_, t') \<Rightarrow> (Some StoreFailure, t'))"

text \<open>The non-blocking look at \<^verbatim>\<open>ctx.Done()\<close>: \<^verbatim>\<open>ctx.Err()\<close> when the context has
  ended.\<close>

definition ctx_Done :: "world \<Rightarrow> trace \<Rightarrow> error option \<times> trace" where
  "ctx_Done env t =
     (case perform env Ctx_Done t of
        (R_Err ContextCanceled, t') \<Rightarrow> (Some ContextCanceled, t')
      | (R_Err ContextDeadlineExceeded, t') \<Rightarrow> (Some ContextDeadlineExceeded, t')
      | (_, t') \<Rightarrow> (None, t'))"

text \<open>\<^verbatim>\<open>select { case <-ctx.Done(): ...; case <-time.After(d): }\<close>: the delay
  elapses, or the context ends first.\<close>

definition sleep_or_done :: "world \<Rightarrow> int \<Rightarrow> trace \<Rightarrow> error option \<times> trace" where
  "sleep_or_done env d t =
     (case perform env (Sleep d) t of
        (R_Err ContextCanceled, t') \<Rightarrow> (Some ContextCanceled, t')
      | (R_Err ContextDeadlineExceeded, t') \<Rightarrow> (Some ContextDeadlineExceeded, t')
      | (_, t') \<Rightarrow> (None, t'))"

text \<open>\<^verbatim>\<open>time.Now().Format(time.RFC3339)\<close>.\<close>

definition time_Now_RFC3339 :: "world \<Rightarrow> trace \<Rightarrow> string \<times> trace" where
  "time_Now_RFC3339 env t =
     (case perform env Time_Now t of
        (R_Time s, t') \<Rightarrow> (s, t')
      | (_, t') \<Rightarrow> ([], t'))"

record onmetalLoadBalancer =
  onmetalClient :: world
  onmetalNamespace :: string
  cloudConfig :: CloudConfig

section \<open>Bounded exponential backoff\<close>

text \<open>
  \<^verbatim>\<open>wait.Backoff\<close> of \<^verbatim>\<open>k8s.io/apimachinery/pkg/util/wait\<close>, with the fields this
  code sets (\<^verbatim>\<open>Jitter\<close> and \<^verbatim>\<open>Cap\<close> stay zero). A duration is a number of
  nanoseconds. The factor is a \<^verbatim>\<open>float64\<close> in Go; here it is a rational, and the
  conversion back to a duration truncates towards zero.
\<close>

record Backoff =
  bo_Duration :: int
  bo_Factor :: rat
  bo_Steps :: int

definition Second :: int where
  "Second = 1000000000"

definition waitLoadbalancerInitDelay :: int where
  "waitLoadbalancerInitDelay = 1 * Second"

definition waitLoadbalancerFactor :: rat where
  "waitLoadbalancerFactor = 12 / 10"

definition waitLoadbalancerActiveSteps :: int where
  "waitLoadbalancerActiveSteps = 19"

definition truncate_Duration :: "rat \<Rightarrow> int" where
  "truncate_Duration x = (if 0 \<le> x then \<lfloor>x\<rfloor> else \<lceil>x\<rceil>)"

text \<open>\<^verbatim>\<open>(*Backoff).Step\<close>: the delay to wait now, and the backoff for the next
  round.\<close>

definition Step :: "Backoff \<Rightarrow> int \<times> Backoff" where
  "Step b =
     (if bo_Steps b < 1 then (bo_Duration b, b)
      else
        (let b1 = b\<lparr>bo_Steps := bo_Steps b - 1\<rparr>;
             duration = bo_Duration b1;
             b2 = (if bo_Factor b1 \<noteq> 0
                   then b1\<lparr>bo_Duration := truncate_Duration (of_int (bo_Duration b1) * bo_Factor b1)\<rparr>
                   else b1)
         in (duration, b2)))"

text \<open>
  \<^verbatim>\<open>wait.ExponentialBackoffWithContext(ctx, backoff, condition)\<close>. The condition is a
  closure: \<open>'s\<close> is the state of the variables it captures.
\<close>

function ExponentialBackoffWithContext ::
  "world \<Rightarrow> Backoff \<Rightarrow> ('s \<Rightarrow> trace \<Rightarrow> ((bool \<times> error option) \<times> 's) \<times> trace)
    \<Rightarrow> 's \<Rightarrow> trace \<Rightarrow> (error option \<times> 's) \<times> trace" where
  "ExponentialBackoffWithContext env b condition s t =
     (if bo_Steps b > 0 then
        (let (done, t1) = ctx_Done env t in
         if done \<noteq> None then ((done, s), t1)
         else
           (let (((ok, err), s'), t2) = condition s t1 in
            if err \<noteq> None \<or> ok then ((err, s'), t2)
            else if bo_Steps b = 1 then ((Some ErrWaitTimeout, s'), t2)
            else
              (let waitBeforeRetry = fst (Step b);
                   (done', t3) = sleep_or_done env waitBeforeRetry t2 in
               if done' \<noteq> None then ((done', s'), t3)
               else ExponentialBackoffWithContext env (snd (Step b)) condition s' t3)))
      else ((Some ErrWaitTimeout, s), t))"
  by pat_completeness auto
termination
  by (relation "measure (\<lambda>(env, b, condition, s, t). nat (bo_Steps b))")
     (auto simp: Step_def Let_def)

declare ExponentialBackoffWithContext.simps [simp del]

section \<open>DestinationResolver\<close>

text \<open>\<^verbatim>\<open>strings.LastIndex(s, sep)\<close> for a separator of one byte: the index of its
  last occurrence, or -1.\<close>

primrec LastIndex_from :: "char \<Rightarrow> string \<Rightarrow> int \<Rightarrow> int \<Rightarrow> int" where
  "LastIndex_from c [] i found = found"
| "LastIndex_from c (x # xs) i found = LastIndex_from c xs (i + 1) (if x = c then i else found)"

definition strings_LastIndex :: "string \<Rightarrow> char \<Rightarrow> int" where
  "strings_LastIndex s c = LastIndex_from c s 0 (- 1)"

definition extractMachineNameFromProviderID :: "string \<Rightarrow> string" where
  "extractMachineNameFromProviderID providerID =
     (let lastSlash = strings_LastIndex providerID (CHR ''/'') in
      if lastSlash = - 1 \<or> lastSlash + 1 \<ge> int (length providerID) then []
      else drop (nat (lastSlash + 1)) providerID)"

text \<open>The zero value of \<^verbatim>\<open>computev1alpha1.Machine\<close>: what \<^verbatim>\<open>machine\<close> still holds
  after a \<^verbatim>\<open>Get\<close> that failed.\<close>

definition zero_Machine :: Machine where
  "zero_Machine = \<lparr>m_Name = [], m_Namespace = [], m_NetworkInterfaces = []\<rparr>"

text \<open>The inner loop of \<^verbatim>\<open>getNetworkInterfacesForNodes\<close>, over
  \<^verbatim>\<open>machine.Spec.NetworkInterfaces\<close>.\<close>

fun networkInterfacesForMachine ::
  "onmetalLoadBalancer \<Rightarrow> Machine \<Rightarrow> string \<Rightarrow> MachineNIC list \<Rightarrow> LocalUIDReference list
    \<Rightarrow> trace \<Rightarrow> (error + LocalUIDReference list) \<times> trace" where
  "networkInterfacesForMachine o' machine networkName [] networkInterfaces t =
     (Inr networkInterfaces, t)"
| "networkInterfacesForMachine o' machine networkName (machineNIC # rest) networkInterfaces t =
     (let networkInterfaceName =
            (case mn_NetworkInterfaceRef machineNIC of
               None \<Rightarrow> m_Name machine @ ''-'' @ mn_Name machineNIC
             | Some r \<Rightarrow> r)
      in case client_Get_NetworkInterface (onmetalClient o')
                \<lparr>key_Namespace = onmetalNamespace o', key_Name = networkInterfaceName\<rparr> t of
           (Inl err, t') \<Rightarrow>
             (Inl (Errorf (''failed to get network interface / for machine ''
                             @ m_Namespace machine @ ''/'' @ m_Name machine @ '': '') (Some err)), t')
         | (Inr networkInterface, t') \<Rightarrow>
             networkInterfacesForMachine o' machine networkName rest
               (if ni_NetworkRef networkInterface = networkName
                then networkInterfaces @
                       [\<lparr>ref_Name = ni_Name networkInterface, ref_UID = ni_UID networkInterface\<rparr>]
                else networkInterfaces) t')"

text \<open>The outer loop of \<^verbatim>\<open>getNetworkInterfacesForNodes\<close>, over the nodes.
  \<^verbatim>\<open>client.IgnoreNotFound(err) != nil\<close> holds for an error that is not a not-found.\<close>

fun networkInterfacesForNodes ::
  "onmetalLoadBalancer \<Rightarrow> string \<Rightarrow> Node list \<Rightarrow> LocalUIDReference list
    \<Rightarrow> trace \<Rightarrow> (error + LocalUIDReference list) \<times> trace" where
  "networkInterfacesForNodes o' networkName [] networkInterfaces t = (Inr networkInterfaces, t)"
| "networkInterfacesForNodes o' networkName (node # rest) networkInterfaces t =
     (let machineName = extractMachineNameFromProviderID (node_ProviderID node);
          (got, t') = client_Get_Machine (onmetalClient o')
                        \<lparr>key_Namespace = onmetalNamespace o', key_Name = machineName\<rparr> t
      in case got of
           Inl err \<Rightarrow>
             if \<not> IsNotFound err
             then (Inl (Errorf (''failed to get machine object for node '' @ node_Name node @ '': '')
                          (Some err)), t')
             else (case networkInterfacesForMachine o' zero_Machine networkName
                          (m_NetworkInterfaces zero_Machine) networkInterfaces t' of
                     (Inl e, t'') \<Rightarrow> (Inl e, t'')
                   | (Inr nis, t'') \<Rightarrow> networkInterfacesForNodes o' networkName rest nis t'')
         | Inr machine \<Rightarrow>
             (case networkInterfacesForMachine o' machine networkName
                     (m_NetworkInterfaces machine) networkInterfaces t' of
                (Inl e, t'') \<Rightarrow> (Inl e, t'')
              | (Inr nis, t'') \<Rightarrow> networkInterfacesForNodes o' networkName rest nis t''))"

definition getNetworkInterfacesForNodes ::
  "onmetalLoadBalancer \<Rightarrow> Node list \<Rightarrow> string \<Rightarrow> trace
    \<Rightarrow> (error + LocalUIDReference list) \<times> trace" where
  "getNetworkInterfacesForNodes o' nodes networkName t =
     networkInterfacesForNodes o' networkName nodes [] t"

section \<open>Lookup\<close>

definition GetLoadBalancerName :: "onmetalLoadBalancer \<Rightarrow> string \<Rightarrow> Service \<Rightarrow> string" where
  "GetLoadBalancerName o' clusterName service = getLoadBalancerNameForService clusterName service"

definition ingressOfIPs :: "string list \<Rightarrow> LoadBalancerIngress list" where
  "ingressOfIPs ips = map (\<lambda>ip. \<lparr>ing_IP = ip, ing_Hostname = []\<rparr>) ips"

text \<open>\<^verbatim>\<open>GetLoadBalancer\<close> returns \<^verbatim>\<open>(status, exists, err)\<close>.\<close>

definition GetLoadBalancer ::
  "onmetalLoadBalancer \<Rightarrow> string \<Rightarrow> Service \<Rightarrow> trace
    \<Rightarrow> (LoadBalancerIngress list option \<times> bool \<times> error option) \<times> trace" where
  "GetLoadBalancer o' clusterName service t =
     (let loadBalancerName = GetLoadBalancerName o' clusterName service in
      case client_Get_LoadBalancer (onmetalClient o')
             \<lparr>key_Namespace = onmetalNamespace o', key_Name = loadBalancerName\<rparr> t of
        (Inl err, t') \<Rightarrow>
          ((None, False,
            Some (Errorf (''failed to get LoadBalancer '' @ loadBalancerName @ '' for Service ''
                            @ svc_Namespace service @ ''/'' @ svc_Name service @ '': '') (Some err))), t')
      | (Inr loadBalancer, t') \<Rightarrow>
          ((Some (ingressOfIPs (lb_StatusIPs loadBalancer)), True, None), t'))"

section \<open>Deleter\<close>

definition waitLoadbalancerBackoff :: Backoff where
  "waitLoadbalancerBackoff =
     \<lparr>bo_Duration = waitLoadbalancerInitDelay,
      bo_Factor = waitLoadbalancerFactor,
      bo_Steps = waitLoadbalancerActiveSteps\<rparr>"

text \<open>The condition of the deletion wait. \<^verbatim>\<open>Get\<close> writes into \<^verbatim>\<open>loadBalancer\<close>
  when it succeeds.\<close>

definition deletedCondition ::
  "world \<Rightarrow> LoadBalancer \<Rightarrow> trace \<Rightarrow> ((bool \<times> error option) \<times> LoadBalancer) \<times> trace" where
  "deletedCondition env loadBalancer t =
     (case client_Get_LoadBalancer env
             \<lparr>key_Namespace = lb_Namespace loadBalancer, key_Name = lb_Name loadBalancer\<rparr> t of
        (Inl err, t') \<Rightarrow>
          if \<not> IsNotFound err then (((False, Some err), loadBalancer), t')
          else (((True, None), loadBalancer), t')
      | (Inr fetched, t') \<Rightarrow> (((False, None), fetched), t'))"

definition waitForDeletingLoadBalancer ::
  "Service \<Rightarrow> world \<Rightarrow> LoadBalancer \<Rightarrow> trace \<Rightarrow> error option \<times> trace" where
  "waitForDeletingLoadBalancer service env loadBalancer t =
     (case ExponentialBackoffWithContext env waitLoadbalancerBackoff (deletedCondition env)
             loadBalancer t of
        ((err, loadBalancer'), t') \<Rightarrow>
          if (case err of None \<Rightarrow> False | Some e \<Rightarrow> Interrupted e)
          then (Some (Errorf (''timeout waiting for the LoadBalancer ''
                                @ lb_Namespace loadBalancer' @ ''/'' @ lb_Name loadBalancer'
                                @ '' to be deleted'') None), t')
          else (None, t'))"

text \<open>The object that \<^verbatim>\<open>EnsureLoadBalancerDeleted\<close> builds: only its namespace and its
  name are set.\<close>

definition named_LoadBalancer :: "string \<Rightarrow> string \<Rightarrow> LoadBalancer" where
  "named_LoadBalancer ns n =
     \<lparr>lb_Name = n, lb_Namespace = ns, lb_UID = [], lb_Annotations = Map.empty, lb_Type = [],
      lb_IPFamilies = [], lb_NetworkRef = [], lb_Ports = [], lb_IPs = [], lb_StatusIPs = []\<rparr>"

definition EnsureLoadBalancerDeleted ::
  "onmetalLoadBalancer \<Rightarrow> string \<Rightarrow> Service \<Rightarrow> trace \<Rightarrow> error option \<times> trace" where
  "EnsureLoadBalancerDeleted o' clusterName service t =
     (let loadBalancerName = GetLoadBalancerName o' clusterName service;
          loadBalancer = named_LoadBalancer (onmetalNamespace o') loadBalancerName
      in case client_Delete_LoadBalancer (onmetalClient o')
                \<lparr>key_Namespace = lb_Namespace loadBalancer, key_Name = lb_Name loadBalancer\<rparr> t of
           (Some err, t') \<Rightarrow>
             if IsNotFound err then (None, t')
             else (Some (Errorf (''failed to delete loadbalancer ''
                                   @ lb_Namespace loadBalancer @ ''/'' @ lb_Name loadBalancer @ '': '')
                           (Some err)), t')
         | (None, t') \<Rightarrow>
             (case waitForDeletingLoadBalancer service (onmetalClient o') loadBalancer t' of
                (Some err, t'') \<Rightarrow> (Some err, t'')
              | (None, t'') \<Rightarrow> (None, t'')))"

section \<open>Routing write and readiness wait\<close>

text \<open>
  \<^verbatim>\<open>servicehelper.LoadBalancerStatusEqual\<close> of \<^verbatim>\<open>k8s.io/cloud-provider\<close>: the two
  ingress lists have the same length and agree, position by position, on IP and
  hostname.
\<close>

definition ingressEqual :: "LoadBalancerIngress \<Rightarrow> LoadBalancerIngress \<Rightarrow> bool" where
  "ingressEqual lhs rhs =
     (if ing_IP lhs \<noteq> ing_IP rhs then False
      else if ing_Hostname lhs \<noteq> ing_Hostname rhs then False
      else True)"

definition LoadBalancerStatusEqual ::
  "LoadBalancerIngress list \<Rightarrow> LoadBalancerIngress list \<Rightarrow> bool" where
  "LoadBalancerStatusEqual l r =
     (if length l \<noteq> length r then False else list_all2 ingressEqual l r)"

text \<open>
  The condition of the activation wait. It captures \<^verbatim>\<open>loadBalancer\<close> (overwritten by
  each successful \<^verbatim>\<open>Get\<close>) and \<^verbatim>\<open>loadBalancerStatus\<close>.
\<close>

definition activeCondition ::
  "world \<Rightarrow> string \<Rightarrow> Service \<Rightarrow> LoadBalancer \<times> LoadBalancerIngress list \<Rightarrow> trace
    \<Rightarrow> ((bool \<times> error option) \<times> LoadBalancer \<times> LoadBalancerIngress list) \<times> trace" where
  "activeCondition env existingLoadBalancerType service s t =
     (let loadBalancer = fst s; loadBalancerStatus = snd s in
      case client_Get_LoadBalancer env
             \<lparr>key_Namespace = lb_Namespace loadBalancer, key_Name = lb_Name loadBalancer\<rparr> t of
        (Inl err, t') \<Rightarrow> (((False, Some err), (loadBalancer, loadBalancerStatus)), t')
      | (Inr fetched, t') \<Rightarrow>
          if length (lb_StatusIPs fetched) = 0
          then (((False, None), (fetched, loadBalancerStatus)), t')
          else
            (let lbIngress = ingressOfIPs (lb_StatusIPs fetched) in
             if lb_Type fetched \<noteq> existingLoadBalancerType
                \<and> LoadBalancerStatusEqual (svc_StatusLoadBalancer service) lbIngress
             then (((False, None), (fetched, lbIngress)), t')
             else (((True, None), (fetched, lbIngress)), t')))"

text \<open>\<^verbatim>\<open>strings.ReplaceAll(s, ":", "-")\<close> and \<^verbatim>\<open>strings.TrimSuffix(s, "Z")\<close>.\<close>

definition replace_colons :: "string \<Rightarrow> string" where
  "replace_colons s = map (\<lambda>c. if c = CHR '':'' then CHR ''-'' else c) s"

definition trim_suffix_Z :: "string \<Rightarrow> string" where
  "trim_suffix_Z s = (if s \<noteq> [] \<and> last s = CHR ''Z'' then butlast s else s)"

definition waitLoadBalancerActive ::
  "world \<Rightarrow> string \<Rightarrow> Service \<Rightarrow> LoadBalancer \<Rightarrow> trace
    \<Rightarrow> (LoadBalancerIngress list \<times> error option) \<times> trace" where
  "waitLoadBalancerActive env existingLoadBalancerType service loadBalancer0 t =
     (case ExponentialBackoffWithContext env waitLoadbalancerBackoff
             (activeCondition env existingLoadBalancerType service) (loadBalancer0, []) t of
        ((err, (loadBalancer, loadBalancerStatus)), t1) \<Rightarrow>
          if (case err of None \<Rightarrow> False | Some e \<Rightarrow> Interrupted e)
          then ((loadBalancerStatus,
                 Some (Errorf (''timeout waiting for the LoadBalancer ''
                                 @ lb_Namespace loadBalancer @ ''/'' @ lb_Name loadBalancer
                                 @ '' to become ready'') None)), t1)
          else
            (case client_Get_LoadBalancerRouting env
                    \<lparr>key_Namespace = lb_Namespace loadBalancer, key_Name = lb_Name loadBalancer\<rparr> t1 of
               (Inl e, t2) \<Rightarrow> ((loadBalancerStatus, Some e), t2)
             | (Inr lbr, t2) \<Rightarrow>
                 (let (now, t3) = time_Now_RFC3339 env t2;
                      formattedTime = trim_suffix_Z (replace_colons now);
                      lbr' = lbr\<lparr>lbr_Labels := (lbr_Labels lbr)(''updated'' \<mapsto> formattedTime)\<rparr>
                  in case client_Update_LoadBalancerRouting env lbr' t3 of
                       (Inl e, t4) \<Rightarrow> ((loadBalancerStatus, Some e), t4)
                     | (Inr _, t4) \<Rightarrow> ((loadBalancerStatus, None), t4))))"

text \<open>
  \<^verbatim>\<open>controllerutil.SetOwnerReference(loadBalancer, loadBalancerRouting, scheme)\<close> of
  controller-runtime: the owner must not sit in another namespace than the object; the
  reference replaces one of the same kind and name, or is appended. The kind of the
  owner is taken to be registered in the scheme.
\<close>

fun upsertOwnerRef :: "OwnerReference \<Rightarrow> OwnerReference list \<Rightarrow> OwnerReference list" where
  "upsertOwnerRef r [] = [r]"
| "upsertOwnerRef r (x # xs) =
     (if own_Kind x = own_Kind r \<and> own_Name x = own_Name r then r # xs
      else x # upsertOwnerRef r xs)"

definition SetOwnerReference ::
  "LoadBalancer \<Rightarrow> LoadBalancerRouting \<Rightarrow> error + LoadBalancerRouting" where
  "SetOwnerReference owner object =
     (let ownerNs = lb_Namespace owner; objNs = lbr_Namespace object in
      if ownerNs \<noteq> [] \<and> objNs = []
      then Inl (Errorf (''cluster-scoped resource must not have a namespace-scoped owner, owner's namespace ''
                          @ ownerNs) None)
      else if ownerNs \<noteq> [] \<and> ownerNs \<noteq> objNs
      then Inl (Errorf (''cross-namespace owner references are disallowed, owner's namespace ''
                          @ ownerNs @ '', obj's namespace '' @ objNs) None)
      else Inr (object\<lparr>lbr_OwnerReferences :=
                  upsertOwnerRef \<lparr>own_Kind = ''LoadBalancer'', own_Name = lb_Name owner,
                                  own_UID = lb_UID owner\<rparr> (lbr_OwnerReferences object)\<rparr>))"

text \<open>\<^verbatim>\<open>sort.Slice\<close> with \<^verbatim>\<open>networkInterfaces[i].UID < networkInterfaces[j].UID\<close>:
  the byte-wise order of the UIDs. Go leaves the order of entries with equal UIDs
  open; \<open>sort_key\<close> keeps them as they were.\<close>

definition sortByUID :: "LocalUIDReference list \<Rightarrow> LocalUIDReference list" where
  "sortByUID networkInterfaces = sort_key ref_UID networkInterfaces"

definition applyLoadBalancerRoutingForLoadBalancer ::
  "onmetalLoadBalancer \<Rightarrow> LoadBalancer \<Rightarrow> Node list \<Rightarrow> trace \<Rightarrow> error option \<times> trace" where
  "applyLoadBalancerRoutingForLoadBalancer o' loadBalancer nodes t =
     (case getNetworkInterfacesForNodes o' nodes (lb_NetworkRef loadBalancer) t of
        (Inl err, t1) \<Rightarrow>
          (Some (Errorf ''failed to get NetworkInterfaces for Nodes: '' (Some err)), t1)
      | (Inr unsorted, t1) \<Rightarrow>
          (let networkInterfaces = sortByUID unsorted;
               networkKey = \<lparr>key_Namespace = onmetalNamespace o',
                             key_Name = lb_NetworkRef loadBalancer\<rparr>
           in case client_Get_Network (onmetalClient o') networkKey t1 of
                (Inl err, t2) \<Rightarrow>
                  (Some (Errorf (''failed to get Network '' @ cfg_NetworkName (cloudConfig o') @ '': '')
                           (Some err)), t2)
              | (Inr network, t2) \<Rightarrow>
                  (let loadBalancerRouting =
                         \<lparr>lbr_Name = lb_Name loadBalancer,
                          lbr_Namespace = onmetalNamespace o',
                          lbr_NetworkRef = \<lparr>ref_Name = nw_Name network, ref_UID = nw_UID network\<rparr>,
                          lbr_Destinations = networkInterfaces,
                          lbr_OwnerReferences = [],
                          lbr_Labels = Map.empty\<rparr>
                   in case SetOwnerReference loadBalancer loadBalancerRouting of
                        Inl err \<Rightarrow>
                          (Some (Errorf (''failed to set owner reference for load balancer routing ''
                                           @ lbr_Namespace loadBalancerRouting @ ''/''
                                           @ lbr_Name loadBalancerRouting @ '': '') (Some err)), t2)
                      | Inr owned \<Rightarrow>
                          (case client_Apply_LoadBalancerRouting (onmetalClient o') owned t2 of
                             (Inl err, t3) \<Rightarrow>
                               (Some (Errorf (''failed to apply LoadBalancerRouting ''
                                                @ lbr_Namespace owned @ ''/'' @ lbr_Name owned
                                                @ '' for LoadBalancer ''
                                                @ lb_Namespace loadBalancer @ ''/'' @ lb_Name loadBalancer
                                                @ '': '') (Some err)), t3)
                           | (Inr _, t3) \<Rightarrow> (None, t3)))))"

section \<open>LoadBalancerOrchestrator\<close>

definition desiredLoadBalancerTypeOf :: "Service \<Rightarrow> string" where
  "desiredLoadBalancerTypeOf service =
     (if svc_Annotations service InternalLoadBalancerAnnotation = Some ''true''
      then LoadBalancerTypeInternal
      else LoadBalancerTypePublic)"

text \<open>\<^verbatim>\<open>EnsureLoadBalancer\<close> returns \<^verbatim>\<open>(*v1.LoadBalancerStatus, error)\<close>.\<close>

definition EnsureLoadBalancer ::
  "onmetalLoadBalancer \<Rightarrow> string \<Rightarrow> Service \<Rightarrow> Node list \<Rightarrow> trace
    \<Rightarrow> (LoadBalancerIngress list option \<times> error option) \<times> trace" where
  "EnsureLoadBalancer o' clusterName service nodes t =
     (let desiredLoadBalancerType = desiredLoadBalancerTypeOf service;
          loadBalancerName = getLoadBalancerNameForService clusterName service;
          (got, t1) = client_Get_LoadBalancer (onmetalClient o')
                        \<lparr>key_Namespace = onmetalNamespace o', key_Name = loadBalancerName\<rparr> t;
          existingLoadBalancerType = (case got of Inl _ \<Rightarrow> [] | Inr existing \<Rightarrow> lb_Type existing);
          (deleted, t2) =
            (case got of
               Inl _ \<Rightarrow> (None, t1)
             | Inr existing \<Rightarrow>
                 if existingLoadBalancerType \<noteq> desiredLoadBalancerType
                 then EnsureLoadBalancerDeleted o' clusterName service t1
                 else (None, t1))
      in case deleted of
           Some err \<Rightarrow>
             ((None, Some (Errorf (''failed deleting existing loadbalancer '' @ loadBalancerName @ '': '')
                             (Some err))), t2)
         | None \<Rightarrow>
             (let lbPorts = map (\<lambda>svcPort. \<lparr>lbp_Protocol = Some (sp_Protocol svcPort),
                                             lbp_Port = sp_Port svcPort\<rparr>) (svc_Ports service);
                  loadBalancer =
                    \<lparr>lb_Name = loadBalancerName,
                     lb_Namespace = onmetalNamespace o',
                     lb_UID = [],
                     lb_Annotations =
                       [AnnotationKeyClusterName \<mapsto> clusterName,
                        AnnotationKeyServiceName \<mapsto> svc_Name service,
                        AnnotationKeyServiceNamespace \<mapsto> svc_Namespace service,
                        AnnotationKeyServiceUID \<mapsto> svc_UID service],
                     lb_Type = desiredLoadBalancerType,
                     lb_IPFamilies = svc_IPFamilies service,
                     lb_NetworkRef = cfg_NetworkName (cloudConfig o'),
                     lb_Ports = lbPorts,
                     lb_IPs = [],
                     lb_StatusIPs = []\<rparr>
              in if desiredLoadBalancerType = LoadBalancerTypeInternal
                    \<and> cfg_PrefixName (cloudConfig o') = []
                 then ((None, Some (Errorf ''prefixName is not defined in config'' None)), t2)
                 else
                   (let loadBalancer' =
                          (if desiredLoadBalancerType = LoadBalancerTypeInternal
                           then loadBalancer\<lparr>lb_IPs :=
                                  [Ephemeral IPv4Protocol (cfg_PrefixName (cloudConfig o'))]\<rparr>
                           else loadBalancer)
                    in case client_Apply_LoadBalancer (onmetalClient o') loadBalancer' t2 of
                         (Inl err, t3) \<Rightarrow>
                           ((None, Some (Errorf (''failed to apply LoadBalancer ''
                                                   @ lb_Namespace loadBalancer' @ ''/''
                                                   @ lb_Name loadBalancer' @ '' for Service ''
                                                   @ svc_Namespace service @ ''/'' @ svc_Name service
                                                   @ '': '') (Some err))), t3)
                       | (Inr applied, t3) \<Rightarrow>
                           (case applyLoadBalancerRoutingForLoadBalancer o' applied nodes t3 of
                              (Some err, t4) \<Rightarrow> ((None, Some err), t4)
                            | (None, t4) \<Rightarrow>
                                (case waitLoadBalancerActive (onmetalClient o')
                                        existingLoadBalancerType service applied t4 of
                                   ((lbStatus, Some err), t5) \<Rightarrow> ((None, Some err), t5)
                                 | ((lbStatus, None), t5) \<Rightarrow> ((Some lbStatus, None), t5))))))"

section \<open>Update\<close>

definition UpdateLoadBalancer ::
  "onmetalLoadBalancer \<Rightarrow> string \<Rightarrow> Service \<Rightarrow> Node list \<Rightarrow> trace \<Rightarrow> error option \<times> trace" where
  "UpdateLoadBalancer o' clusterName service nodes t =
     (if length nodes = 0
      then (Some (Errorf (''no Nodes available for LoadBalancer Service ''
                            @ svc_Namespace service @ ''/'' @ svc_Name service) None), t)
      else
        (let loadBalancerName = GetLoadBalancerName o' clusterName service;
             loadBalancerKey = \<lparr>key_Namespace = onmetalNamespace o', key_Name = loadBalancerName\<rparr>
         in case client_Get_LoadBalancer (onmetalClient o') loadBalancerKey t of
              (Inl err, t1) \<Rightarrow> (Some (Errorf ''failed to get LoadBalancer /: '' (Some err)), t1)
            | (Inr loadBalancer, t1) \<Rightarrow>
                (case client_Get_LoadBalancerRouting (onmetalClient o') loadBalancerKey t1 of
                   (Inl err, t2) \<Rightarrow>
                     (Some (Errorf (''failed to get LoadBalancerRouting ''
                                      @ lb_Namespace loadBalancer @ ''/'' @ lb_Name loadBalancer
                                      @ '' for LoadBalancer /: '') (Some err)), t2)
                 | (Inr loadBalancerRouting, t2) \<Rightarrow>
                     (case getNetworkInterfacesForNodes o' nodes (lb_NetworkRef loadBalancer) t2 of
                        (Inl err, t3) \<Rightarrow>
                          (Some (Errorf (''failed to get NetworkInterfaces for LoadBalancer ''
                                           @ lb_Namespace loadBalancer @ ''/'' @ lb_Name loadBalancer
                                           @ '': '') (Some err)), t3)
                      | (Inr networkInterfaces, t3) \<Rightarrow>
                          (let loadBalancerRoutingBase = loadBalancerRouting;
                               loadBalancerRouting' =
                                 loadBalancerRouting\<lparr>lbr_Destinations := networkInterfaces\<rparr>
                           in case client_MergePatch_LoadBalancerRouting (onmetalClient o')
                                     loadBalancerRoutingBase loadBalancerRouting' t3 of
                                (Inl err, t4) \<Rightarrow>
                                  (Some (Errorf (''failed to patch LoadBalancerRouting ''
                                                   @ lbr_Namespace loadBalancerRouting' @ ''/''
                                                   @ lbr_Name loadBalancerRouting'
                                                   @ '' for LoadBalancer ''
                                                   @ lb_Namespace loadBalancer @ ''/''
                                                   @ lb_Name loadBalancer @ '': '') (Some err)), t4)
                              | (Inr _, t4) \<Rightarrow> (None, t4))))))"

section \<open>Reading traces\<close>

text \<open>The error that the client reports for a response that is not the object asked
  for.\<close>

definition response_error :: "response \<Rightarrow> error" where
  "response_error r = (case r of R_Err e \<Rightarrow> e | _ \<Rightarrow> StoreFailure)"

definition is_resolver_call :: "call \<Rightarrow> bool" where
  "is_resolver_call c =
     (case c of Get_Machine _ \<Rightarrow> True | Get_NetworkInterface _ \<Rightarrow> True | _ \<Rightarrow> False)"

definition is_poll :: "call \<Rightarrow> bool" where
  "is_poll c = (case c of Get_LoadBalancer _ \<Rightarrow> True | _ \<Rightarrow> False)"

definition is_routing_apply :: "call \<Rightarrow> bool" where
  "is_routing_apply c = (case c of Apply_LoadBalancerRouting _ \<Rightarrow> True | _ \<Rightarrow> False)"

text \<open>The polls of the load balancer in a piece of trace, and the delays slept.\<close>

definition polls :: "trace \<Rightarrow> call list" where
  "polls seg = filter is_poll (map fst seg)"

definition sleeps :: "trace \<Rightarrow> int list" where
  "sleeps seg = concat (map (\<lambda>x. case fst x of Sleep d \<Rightarrow> [d] | _ \<Rightarrow> []) seg)"

text \<open>The delays that the first \<open>n\<close> calls of \<^verbatim>\<open>Step\<close> return.\<close>

fun backoff_delays :: "Backoff \<Rightarrow> nat \<Rightarrow> int list" where
  "backoff_delays b 0 = []"
| "backoff_delays b (Suc n) = fst (Step b) # backoff_delays (snd (Step b)) n"

section \<open>Example objects and worlds\<close>

definition example_Service :: Service where
  "example_Service =
     \<lparr>svc_Name = ''svc'', svc_Namespace = ''default'', svc_UID = ''1234-abcd'',
      svc_Annotations = Map.empty,
      svc_Ports = [\<lparr>sp_Protocol = ''TCP'', sp_Port = 443\<rparr>],
      svc_IPFamilies = [], svc_StatusLoadBalancer = []\<rparr>"

definition example_Config :: CloudConfig where
  "example_Config = \<lparr>cfg_NetworkName = ''my-network'', cfg_PrefixName = ''my-prefix''\<rparr>"

definition provider_on :: "world \<Rightarrow> onmetalLoadBalancer" where
  "provider_on env =
     \<lparr>onmetalClient = env, onmetalNamespace = ''onmetal'', cloudConfig = example_Config\<rparr>"

text \<open>A store that holds nothing.\<close>

definition empty_world :: world where
  "empty_world t c = R_Err NotFound"

definition example_LoadBalancer :: LoadBalancer where
  "example_LoadBalancer =
     \<lparr>lb_Name = ''cluster-svc-1234'', lb_Namespace = ''onmetal'', lb_UID = ''lb-uid'',
      lb_Annotations = Map.empty, lb_Type = ''Public'', lb_IPFamilies = [],
      lb_NetworkRef = ''my-network'', lb_Ports = [], lb_IPs = [],
      lb_StatusIPs = [''10.0.0.1'']\<rparr>"

text \<open>A store in which every load balancer lookup finds \<open>example_LoadBalancer\<close>.\<close>

definition active_world :: world where
  "active_world t c =
     (case c of
        Get_LoadBalancer k \<Rightarrow> R_LoadBalancer example_LoadBalancer
      | _ \<Rightarrow> R_Err NotFound)"

section \<open>Properties\<close>

subsection \<open>Name derivation\<close>

lemma strings_Split_not_Nil: "strings_Split s c \<noteq> []"
  by (induction s) (auto split: list.splits)

lemma strings_Split_first:
  "(case strings_Split s c of [] \<Rightarrow> [] | seg # _ \<Rightarrow> seg) = takeWhile (\<lambda>x. x \<noteq> c) s"
  by (induction s) (auto split: list.splits)

lemma getLoadBalancerNameForService_eq:
  "getLoadBalancerNameForService clusterName service =
     clusterName @ ''-'' @ svc_Name service @ ''-''
       @ takeWhile (\<lambda>x. x \<noteq> CHR ''-'') (svc_UID service)"
  by (simp add: getLoadBalancerNameForService_def strings_Split_first)

lemma append_sep_eq_iff:
  "x \<notin> set xs \<Longrightarrow> x \<notin> set xs' \<Longrightarrow>
   (xs @ x # ys = xs' @ x # ys') = (xs = xs' \<and> ys = ys')"
proof (induction xs arbitrary: xs')
  case Nil
  then show ?case by (cases xs') auto
next
  case (Cons a xs)
  then show ?case by (cases xs') auto
qed

text \<open>
  C5, as amended: the derived name is the cluster name, the service name and the first
  segment of the UID split on \<open>-\<close>, joined by \<open>-\<close> (the split never yields an empty
  list, so its first segment exists); it depends on the cluster name, the service name
  and the UID only, so deriving it again gives the same string; and for cluster names
  and service names that contain no \<open>-\<close>, two names are equal exactly when the cluster
  names, the service names and the first segments of the UIDs are equal. UIDs that
  share their first segment collide.
\<close>

theorem getLoadBalancerNameForService_formula:
  "getLoadBalancerNameForService clusterName service =
     clusterName @ ''-'' @ svc_Name service @ ''-''
       @ (case strings_Split (svc_UID service) (CHR ''-'') of [] \<Rightarrow> [] | seg # _ \<Rightarrow> seg)
   \<and> strings_Split (svc_UID service) (CHR ''-'') \<noteq> []
   \<and> (svc_Name service' = svc_Name service \<and> svc_UID service' = svc_UID service \<longrightarrow>
        getLoadBalancerNameForService clusterName service'
          = getLoadBalancerNameForService clusterName service)
   \<and> (CHR ''-'' \<notin> set clusterName \<and> CHR ''-'' \<notin> set clusterName2
        \<and> CHR ''-'' \<notin> set (svc_Name service) \<and> CHR ''-'' \<notin> set (svc_Name service2) \<longrightarrow>
        (getLoadBalancerNameForService clusterName service
           = getLoadBalancerNameForService clusterName2 service2)
        = (clusterName = clusterName2 \<and> svc_Name service = svc_Name service2
           \<and> takeWhile (\<lambda>x. x \<noteq> CHR ''-'') (svc_UID service)
             = takeWhile (\<lambda>x. x \<noteq> CHR ''-'') (svc_UID service2)))"
  by (simp add: getLoadBalancerNameForService_eq strings_Split_first strings_Split_not_Nil
      append_sep_eq_iff)

theorem getLoadBalancerNameForService_formula_witness:
  "getLoadBalancerNameForService ''cluster'' example_Service = ''cluster-svc-1234''
   \<and> getLoadBalancerNameForService ''cluster'' (example_Service\<lparr>svc_Namespace := ''other''\<rparr>)
       = getLoadBalancerNameForService ''cluster'' example_Service
   \<and> getLoadBalancerNameForService ''cluster'' example_Service
       \<noteq> getLoadBalancerNameForService ''cluster'' (example_Service\<lparr>svc_UID := ''9999-abcd''\<rparr>)"
  using getLoadBalancerNameForService_formula [of "''cluster''" example_Service
      "example_Service\<lparr>svc_Namespace := ''other''\<rparr>" "''cluster''"
      "example_Service\<lparr>svc_UID := ''9999-abcd''\<rparr>"]
  by (simp add: example_Service_def getLoadBalancerNameForService_def)

text \<open>
  C5 as stated fails: the triples (cluster, svc, 1234-abcd) and (cluster, svc, 1234-ffff)
  differ and get the same name.
\<close>

theorem getLoadBalancerNameForService_collision:
  "(''cluster'', svc_Name example_Service, svc_UID example_Service)
     \<noteq> (''cluster'', svc_Name (example_Service\<lparr>svc_UID := ''1234-ffff''\<rparr>),
         svc_UID (example_Service\<lparr>svc_UID := ''1234-ffff''\<rparr>))
   \<and> getLoadBalancerNameForService ''cluster'' example_Service
     = getLoadBalancerNameForService ''cluster'' (example_Service\<lparr>svc_UID := ''1234-ffff''\<rparr>)"
  by (simp add: example_Service_def getLoadBalancerNameForService_def)

subsection \<open>Update with no nodes\<close>

text \<open>
  C6: for every provider, cluster name, service and trace so far,
  \<^verbatim>\<open>UpdateLoadBalancer\<close> with an empty node list returns an error and leaves the
  trace as it was: it makes no call at all, so it neither reads nor writes the store.
\<close>

theorem UpdateLoadBalancer_no_nodes:
  "UpdateLoadBalancer o' clusterName service [] t =
     (Some (Errorf (''no Nodes available for LoadBalancer Service ''
                      @ svc_Namespace service @ ''/'' @ svc_Name service) None), t)"
  by (simp add: UpdateLoadBalancer_def)

subsection \<open>Deletion of an absent load balancer\<close>

text \<open>
  C7: when the store answers the deletion of the load balancer of the derived name
  with a not-found error, \<^verbatim>\<open>EnsureLoadBalancerDeleted\<close> returns no error, and the
  deletion is the only call it makes: the deletion wait is not entered.
\<close>

theorem EnsureLoadBalancerDeleted_absent:
  assumes "onmetalClient o' t (Delete_LoadBalancer \<lparr>key_Namespace = onmetalNamespace o',
              key_Name = getLoadBalancerNameForService clusterName service\<rparr>) = R_Err e"
      and "IsNotFound e"
  shows "EnsureLoadBalancerDeleted o' clusterName service t =
     (None, t @ [(Delete_LoadBalancer \<lparr>key_Namespace = onmetalNamespace o',
              key_Name = getLoadBalancerNameForService clusterName service\<rparr>, R_Err e)])"
  using assms
  by (simp add: EnsureLoadBalancerDeleted_def GetLoadBalancerName_def named_LoadBalancer_def
      client_Delete_LoadBalancer_def perform_def Let_def)

theorem EnsureLoadBalancerDeleted_absent_witness:
  "EnsureLoadBalancerDeleted (provider_on empty_world) ''cluster'' example_Service [] =
     (None, [(Delete_LoadBalancer \<lparr>key_Namespace = ''onmetal'', key_Name = ''cluster-svc-1234''\<rparr>,
              R_Err NotFound)])"
  using EnsureLoadBalancerDeleted_absent [of "provider_on empty_world" "[]" "''cluster''"
      example_Service NotFound]
  by (simp add: provider_on_def empty_world_def example_Service_def getLoadBalancerNameForService_def)

subsection \<open>Lookup of an absent load balancer\<close>

text \<open>
  C9: when the store answers the lookup of the load balancer of the derived name with
  a not-found error, \<^verbatim>\<open>GetLoadBalancer\<close> returns no status, \<open>exists = False\<close> and an
  error that wraps the not-found error (and is recognised as not-found itself); so the
  outcome is never "no status, not existing, no error".
\<close>

theorem GetLoadBalancer_absent:
  assumes "onmetalClient o' t (Get_LoadBalancer \<lparr>key_Namespace = onmetalNamespace o',
              key_Name = getLoadBalancerNameForService clusterName service\<rparr>) = R_Err e"
      and "IsNotFound e"
  shows "\<exists>err. fst (GetLoadBalancer o' clusterName service t) = (None, False, Some err)
           \<and> IsNotFound err
           \<and> err = Errorf (''failed to get LoadBalancer ''
                             @ getLoadBalancerNameForService clusterName service
                             @ '' for Service '' @ svc_Namespace service @ ''/''
                             @ svc_Name service @ '': '') (Some e)"
  using assms
  by (simp add: GetLoadBalancer_def GetLoadBalancerName_def client_Get_LoadBalancer_def
      perform_def Let_def)

theorem GetLoadBalancer_absent_witness:
  "fst (GetLoadBalancer (provider_on empty_world) ''cluster'' example_Service []) =
     (None, False,
      Some (Errorf ''failed to get LoadBalancer cluster-svc-1234 for Service default/svc: ''
              (Some NotFound)))"
  using GetLoadBalancer_absent [of "provider_on empty_world" "[]" "''cluster''"
      example_Service NotFound]
  by (simp add: provider_on_def empty_world_def example_Service_def getLoadBalancerNameForService_def)

subsection \<open>The guard of the activation wait\<close>

lemma LoadBalancerStatusEqual_iff: "LoadBalancerStatusEqual l r = (l = r)"
proof -
  have "ingressEqual = (=)"
    by (intro ext) (auto simp: ingressEqual_def)
  then show ?thesis
    by (auto simp: LoadBalancerStatusEqual_def list_all2_eq [symmetric] dest: list_all2_lengthD)
qed

text \<open>
  C8: a polling attempt of the activation wait that fetches a load balancer with a
  non-empty \<^verbatim>\<open>status.ips\<close> reports not-ready exactly when the type of the fetched
  object differs from the type recorded before the reconcile and the ingress computed
  from \<^verbatim>\<open>status.ips\<close> equals the load-balancer status of the service; otherwise it
  reports ready. In both cases it reports no error and leaves the computed ingress in
  \<^verbatim>\<open>loadBalancerStatus\<close>.
\<close>

theorem activeCondition_ready_iff:
  assumes "env t (Get_LoadBalancer \<lparr>key_Namespace = lb_Namespace loadBalancer,
                                    key_Name = lb_Name loadBalancer\<rparr>) = R_LoadBalancer fetched"
      and "lb_StatusIPs fetched \<noteq> []"
  shows "activeCondition env existingLoadBalancerType service (loadBalancer, loadBalancerStatus) t =
     (((\<not> (lb_Type fetched \<noteq> existingLoadBalancerType
             \<and> ingressOfIPs (lb_StatusIPs fetched) = svc_StatusLoadBalancer service), None),
       (fetched, ingressOfIPs (lb_StatusIPs fetched))),
      t @ [(Get_LoadBalancer \<lparr>key_Namespace = lb_Namespace loadBalancer,
                               key_Name = lb_Name loadBalancer\<rparr>, R_LoadBalancer fetched)])"
  using assms
  by (auto simp: activeCondition_def client_Get_LoadBalancer_def perform_def Let_def
      LoadBalancerStatusEqual_iff)

theorem activeCondition_ready_iff_witness:
  "fst (activeCondition active_world ''Internal''
          (example_Service\<lparr>svc_StatusLoadBalancer := [\<lparr>ing_IP = ''10.0.0.1'', ing_Hostname = []\<rparr>]\<rparr>)
          (example_LoadBalancer, []) []) =
     ((False, None), (example_LoadBalancer, [\<lparr>ing_IP = ''10.0.0.1'', ing_Hostname = []\<rparr>]))
   \<and> fst (activeCondition active_world ''Public'' example_Service (example_LoadBalancer, []) []) =
     ((True, None), (example_LoadBalancer, [\<lparr>ing_IP = ''10.0.0.1'', ing_Hostname = []\<rparr>]))"
  using activeCondition_ready_iff [of active_world "[]" example_LoadBalancer example_LoadBalancer
      "''Internal''"
      "example_Service\<lparr>svc_StatusLoadBalancer := [\<lparr>ing_IP = ''10.0.0.1'', ing_Hostname = []\<rparr>]\<rparr>" "[]"]
    activeCondition_ready_iff [of active_world "[]" example_LoadBalancer example_LoadBalancer
      "''Public''" example_Service "[]"]
  by (simp add: active_world_def example_LoadBalancer_def example_Service_def ingressOfIPs_def)

end
